theory Spec2Isabelle
  imports Complex_Main "HOL-Library.AList"
begin

section \<open>Python values, dictionaries, exceptions and the effect trace\<close>

text \<open>
  The avatar factory is Python. The values that travel through the core (messages,
  metadata, configuration) are JSON-like; a \<^verbatim>\<open>dict\<close> keeps insertion order, so it is an
  association list whose keys are kept distinct by the update functions:
  \<^verbatim>\<open>d[k] = v\<close> is \<^const>\<open>AList.update\<close> (in place for a known key, appended otherwise),
  \<^verbatim>\<open>d.update(d2)\<close> stores the items of \<^verbatim>\<open>d2\<close> one after the other, \<^verbatim>\<open>del d[k]\<close> is
  \<^const>\<open>AList.delete\<close> and \<^verbatim>\<open>k in d\<close> is membership in the list of keys.
\<close>

datatype pyval =
    PNone
  | PBool bool
  | PInt int
  | PFloat real
  | PStr string
  | PList "pyval list"
  | PDict "(string \<times> pyval) list"

type_synonym pydict = "(string \<times> pyval) list"

definition dict_keys :: "(string \<times> 'v) list \<Rightarrow> string list" where
  "dict_keys d = map fst d"

definition dict_contains :: "string \<Rightarrow> (string \<times> 'v) list \<Rightarrow> bool" where
  "dict_contains k d = (k \<in> set (dict_keys d))"

definition dict_update :: "(string \<times> 'v) list \<Rightarrow> (string \<times> 'v) list \<Rightarrow> (string \<times> 'v) list" where
  "dict_update d d2 = foldl (\<lambda>acc kv. AList.update (fst kv) (snd kv) acc) d d2"

text \<open>\<^verbatim>\<open>d.get(k, default)\<close> on a dict of Python values.\<close>

definition dict_get :: "pydict \<Rightarrow> string \<Rightarrow> pyval \<Rightarrow> pyval" where
  "dict_get d k dflt = (case map_of d k of None \<Rightarrow> dflt | Some v \<Rightarrow> v)"

text \<open>
  A call that can raise returns an \<open>outcome\<close>: \<open>Raised\<close> carries the text of the
  exception, \<open>Returned\<close> the value.
\<close>

datatype 'a outcome = Raised string | Returned 'a

text \<open>
  What the code does to the outside world is recorded, in order, as a list of events:
  the calls into plugins and collaborators and the lines written to the log.
\<close>

datatype event =
    LogInfo string
  | LogWarning string
  | LogError string
  | ConfigRead string
  | PersonaRead string
  | PluginCreated string
  | PluginInitialize string
  | PluginProcess string
  | PluginCleanup string
  | ProxyCreated
  | ProxyConnect
  | ProxyDisconnect
  | SpeechCreated
  | StartAvatar
  | StopAvatar
  | Speak string

section \<open>Plugins and the plugin pipeline (\<^verbatim>\<open>core/avatar_engine.py\<close>)\<close>

text \<open>
  The merged response of the pipeline is the dict \<^verbatim>\<open>{'content': '', 'metadata': {}}\<close>.
  A plugin's response (\<^verbatim>\<open>BasePlugin.process\<close> returns \<^verbatim>\<open>Optional[Dict]\<close>) carries the
  same two keys and \<^verbatim>\<open>'final'\<close>, typed as the plugins of the repository produce them:
  the content a string, the metadata a dict, final a boolean. The pipeline reads all three
  with \<^verbatim>\<open>.get\<close> and tests their truth value, so a missing key, \<^verbatim>\<open>None\<close> and the empty
  string or dict are one case: the empty value of the field.
\<close>

record response =
  content :: string
  metadata :: pydict

record plugin_response = response +
  final :: bool

text \<open>
  A plugin is an object with optional methods (\<^verbatim>\<open>hasattr(plugin, 'process')\<close>,
  \<^verbatim>\<open>hasattr(plugin, 'cleanup')\<close>): a missing method is \<open>None\<close>. \<open>plugin_process\<close> gives,
  for a message, what awaiting \<^verbatim>\<open>plugin.process(message)\<close> does: it raises, or it returns
  a falsy value (\<^verbatim>\<open>None\<close> or an empty dict, \<open>Returned None\<close>) or a response.
  \<open>plugin_initialize\<close> and \<open>plugin_cleanup\<close> say whether those calls raise.
\<close>

record plugin =
  plugin_initialize :: "pydict \<Rightarrow> bool outcome"
  plugin_process :: "(pydict \<Rightarrow> plugin_response option outcome) option"
  plugin_cleanup :: "unit outcome option"

text \<open>
  The body of the \<^verbatim>\<open>if plugin_response:\<close> block of \<^verbatim>\<open>_process_through_plugins\<close>:
  non-empty content overwrites the merged content, non-empty metadata is merged with
  \<^verbatim>\<open>dict.update\<close>.
\<close>

definition merge_response :: "response \<Rightarrow> plugin_response \<Rightarrow> response" where
  "merge_response r pr =
     (let r1 = (if content pr \<noteq> [] then r\<lparr>content := content pr\<rparr> else r)
      in if metadata pr \<noteq> [] then r1\<lparr>metadata := dict_update (metadata r1) (metadata pr)\<rparr>
         else r1)"

definition emit :: "event list \<Rightarrow> 'a \<times> event list \<Rightarrow> 'a \<times> event list" where
  "emit evs res = (fst res, evs @ snd res)"

text \<open>
  The \<^verbatim>\<open>for plugin_name, plugin in self.plugins.items()\<close> loop. The whole body is under
  \<^verbatim>\<open>try\<close>, so an exception of \<^verbatim>\<open>process\<close> is logged and the loop goes on; a final
  response leaves the loop (\<^verbatim>\<open>break\<close>). The result is the merged response and the
  events of the run.
\<close>

fun process_through_plugins_loop ::
  "(string \<times> plugin) list \<Rightarrow> pydict \<Rightarrow> response \<Rightarrow> response \<times> event list" where
  "process_through_plugins_loop [] message r = (r, [])"
| "process_through_plugins_loop ((plugin_name, p) # rest) message r =
     (case plugin_process p of
        None \<Rightarrow> process_through_plugins_loop rest message r
      | Some process \<Rightarrow>
          (case process message of
             Raised e \<Rightarrow>
               emit [PluginProcess plugin_name,
                     LogError (''Plugin '' @ plugin_name @ '' processing error: '' @ e)]
                 (process_through_plugins_loop rest message r)
           | Returned None \<Rightarrow>
               emit [PluginProcess plugin_name] (process_through_plugins_loop rest message r)
           | Returned (Some pr) \<Rightarrow>
               if final pr then (merge_response r pr, [PluginProcess plugin_name])
               else emit [PluginProcess plugin_name]
                      (process_through_plugins_loop rest message (merge_response r pr))))"

definition empty_response :: response where
  "empty_response = \<lparr>content = [], metadata = []\<rparr>"

section \<open>The realtime connection (\<^verbatim>\<open>core/realtime_proxy.py\<close>)\<close>

text \<open>
  \<^verbatim>\<open>send\<close> takes a dict, which it serialises with \<^verbatim>\<open>json.dumps\<close>, or anything else,
  which it hands to the socket as it is. A frame on the wire is therefore the JSON text of
  a dict (\<open>JsonText d\<close> stands for \<^verbatim>\<open>json.dumps(d)\<close>) or a raw string.
\<close>

datatype out_message = DictMessage pydict | RawMessage string

datatype frame = JsonText pydict | RawText string

fun frame_of :: "out_message \<Rightarrow> frame" where
  "frame_of (DictMessage d) = JsonText d"
| "frame_of (RawMessage s) = RawText s"

text \<open>
  The \<^verbatim>\<open>websocket.WebSocketApp\<close> of the proxy: whether its socket is open, and the frames
  written to it so far. \<^verbatim>\<open>ws.send\<close> raises on a socket that is not open.
\<close>

record websocket_app =
  sock_open :: bool
  wire :: "frame list"

definition ws_send :: "websocket_app \<Rightarrow> frame \<Rightarrow> websocket_app outcome" where
  "ws_send w f =
     (if sock_open w then Returned (w\<lparr>wire := wire w @ [f]\<rparr>)
      else Raised ''Connection is already closed.'')"

text \<open>
  The fields of \<^verbatim>\<open>RealtimeProxy\<close> that connecting, sending and queueing read or write.
  The endpoint, headers and handlers do not influence them and are left out.
\<close>

record realtime_proxy =
  ws :: "websocket_app option"
  is_connected :: bool
  message_queue :: "out_message list"
  proxy_log :: "event list"

definition new_realtime_proxy :: realtime_proxy where
  "new_realtime_proxy = \<lparr>ws = None, is_connected = False, message_queue = [], proxy_log = []\<rparr>"

definition proxy_logs :: "event \<Rightarrow> realtime_proxy \<Rightarrow> realtime_proxy" where
  "proxy_logs ev p = p\<lparr>proxy_log := proxy_log p @ [ev]\<rparr>"

text \<open>
  \<^verbatim>\<open>RealtimeProxy.send\<close>: queue and return \<^verbatim>\<open>False\<close> when not connected; otherwise
  serialise, write to the socket and return \<^verbatim>\<open>True\<close>, or log and return \<^verbatim>\<open>False\<close> when
  that raises (also when \<^verbatim>\<open>self.ws\<close> is \<^verbatim>\<open>None\<close>).
\<close>

definition send :: "realtime_proxy \<Rightarrow> out_message \<Rightarrow> bool \<times> realtime_proxy" where
  "send p message =
     (if \<not> is_connected p then (False, p\<lparr>message_queue := message_queue p @ [message]\<rparr>)
      else
        (case ws p of
           None \<Rightarrow>
             (False, proxy_logs (LogError ''Failed to send message: no websocket'') p)
         | Some w \<Rightarrow>
             (case ws_send w (frame_of message) of
                Raised e \<Rightarrow> (False, proxy_logs (LogError (''Failed to send message: '' @ e)) p)
              | Returned w' \<Rightarrow> (True, p\<lparr>ws := Some w'\<rparr>))))"

text \<open>
  The loop \<^verbatim>\<open>for message in self.message_queue: self.send(message)\<close> of \<^verbatim>\<open>_on_open\<close>.
  It runs with \<^verbatim>\<open>is_connected\<close> set, so \<^verbatim>\<open>send\<close> never appends to the queue it walks.
\<close>

fun send_each :: "realtime_proxy \<Rightarrow> out_message list \<Rightarrow> realtime_proxy" where
  "send_each p [] = p"
| "send_each p (message # rest) = send_each (snd (send p message)) rest"

definition on_open :: "realtime_proxy \<Rightarrow> realtime_proxy" where
  "on_open p =
     (let p1 = proxy_logs (LogInfo ''Realtime WebSocket connection established'')
                 (p\<lparr>is_connected := True\<rparr>);
          p2 = send_each p1 (message_queue p1)
      in p2\<lparr>message_queue := []\<rparr>)"

definition on_close :: "realtime_proxy \<Rightarrow> realtime_proxy" where
  "on_close p = proxy_logs (LogInfo ''WebSocket closed'') (p\<lparr>is_connected := False\<rparr>)"

text \<open>
  \<^verbatim>\<open>connect\<close> creates a new \<^verbatim>\<open>WebSocketApp\<close>, runs it on a thread and waits one second;
  \<open>opens\<close> says whether the socket opened within that time, in which case the library
  has called \<^verbatim>\<open>_on_open\<close>. The result is \<^verbatim>\<open>self.is_connected\<close>.
\<close>

definition connect :: "bool \<Rightarrow> realtime_proxy \<Rightarrow> bool \<times> realtime_proxy" where
  "connect opens p =
     (let p1 = proxy_logs (LogInfo ''Connecting to WebSocket'')
                 (p\<lparr>ws := Some \<lparr>sock_open = opens, wire = []\<rparr>\<rparr>);
          p2 = (if opens then on_open p1 else p1)
      in (is_connected p2, p2))"

definition disconnect :: "realtime_proxy \<Rightarrow> realtime_proxy" where
  "disconnect p =
     (case ws p of
        None \<Rightarrow> p
      | Some w \<Rightarrow>
          proxy_logs (LogInfo ''Realtime WebSocket disconnected'')
            (p\<lparr>ws := Some (w\<lparr>sock_open := False\<rparr>), is_connected := False\<rparr>))"

section \<open>The avatar engine and its session (\<^verbatim>\<open>core/avatar_engine.py\<close>)\<close>

text \<open>Python's truth value of a JSON-like value.\<close>

fun truthy :: "pyval \<Rightarrow> bool" where
  "truthy PNone = False"
| "truthy (PBool b) = b"
| "truthy (PInt i) = (i \<noteq> 0)"
| "truthy (PFloat x) = (x \<noteq> 0)"
| "truthy (PStr s) = (s \<noteq> [])"
| "truthy (PList xs) = (xs \<noteq> [])"
| "truthy (PDict d) = (d \<noteq> [])"

text \<open>
  The resolved configuration the core consumes: the \<^verbatim>\<open>azure\<close> section (an empty dict
  when missing) and the \<^verbatim>\<open>plugins\<close> list, whose entries are plugin names or dicts with a
  name and a \<^verbatim>\<open>config\<close> dict.
\<close>

datatype plugin_config = PluginName string | PluginEntry string pydict

fun plugin_config_name :: "plugin_config \<Rightarrow> string" where
  "plugin_config_name (PluginName n) = n"
| "plugin_config_name (PluginEntry n c) = n"

fun plugin_config_dict :: "plugin_config \<Rightarrow> pydict" where
  "plugin_config_dict (PluginName n) = []"
| "plugin_config_dict (PluginEntry n c) = c"

record config =
  azure :: pydict
  plugins_config :: "plugin_config list"

text \<open>
  The world outside the process, as the engine sees it: which paths exist, what reading
  a configuration or persona file gives, what importing a plugin file and instantiating
  its class gives (\<open>None\<close>: the module has no class of the expected name), whether the
  realtime socket opens within the grace period and whether the avatar stream starts.
  A \<open>clock\<close> is \<^verbatim>\<open>datetime.now()\<close> as read during a call, in seconds and as its
  \<^verbatim>\<open>isoformat()\<close>.
\<close>

record environment =
  path_exists :: "string \<Rightarrow> bool"
  read_config :: "string \<Rightarrow> config outcome"
  read_persona :: "string \<Rightarrow> pydict outcome"
  plugin_class :: "string \<Rightarrow> plugin outcome option"
  socket_opens :: bool
  avatar_starts :: bool

record clock =
  now :: real
  now_iso :: string

record history_entry =
  role :: string
  entry_content :: pyval
  timestamp :: string

record session_state =
  active :: bool
  session_id :: "string option"
  start_time :: "real option"
  messages :: "history_entry list"
  metrics :: "(string \<times> int) list"

record speech_handler =
  avatar_connected :: bool

record engine =
  instance_name :: string
  config_path :: string
  config :: "config option"
  realtime_proxy :: "realtime_proxy option"
  speech_handler :: "speech_handler option"
  plugins :: "(string \<times> plugin) list"
  persona :: "pydict option"
  session_state :: session_state
  initialized :: bool
  trace :: "event list"

text \<open>\<^verbatim>\<open>AvatarEngine.__init__\<close>.\<close>

definition new_engine :: "string \<Rightarrow> string option \<Rightarrow> engine" where
  "new_engine name path =
     \<lparr>instance_name = name,
      config_path = (case path of
                       None \<Rightarrow> ''instances/'' @ name @ ''/config.yaml''
                     | Some p \<Rightarrow> if p = [] then ''instances/'' @ name @ ''/config.yaml'' else p),
      config = None,
      realtime_proxy = None,
      speech_handler = None,
      plugins = [],
      persona = None,
      session_state = \<lparr>active = False, session_id = None, start_time = None,
                        messages = [], metrics = []\<rparr>,
      initialized = False,
      trace = []\<rparr>"

definition logs :: "event list \<Rightarrow> engine \<Rightarrow> engine" where
  "logs evs e = e\<lparr>trace := trace e @ evs\<rparr>"

definition load_config :: "environment \<Rightarrow> engine \<Rightarrow> unit outcome \<times> engine" where
  "load_config env e =
     (case read_config env (config_path e) of
        Raised x \<Rightarrow>
          (Raised x,
           logs [ConfigRead (config_path e), LogError (''Failed to load configuration: '' @ x)] e)
      | Returned c \<Rightarrow>
          (Returned (),
           logs [ConfigRead (config_path e),
                 LogInfo (''Configuration loaded for instance: '' @ instance_name e)]
             (e\<lparr>config := Some c\<rparr>)))"

definition get_default_persona :: pydict where
  "get_default_persona =
     [(''name'', PStr ''Default Assistant''),
      (''voice'', PDict [(''language'', PStr ''en-US''), (''model'', PStr ''en-US-JennyNeural''),
                         (''pitch'', PStr ''0Hz''), (''rate'', PFloat 1)]),
      (''avatar'', PDict [(''character'', PStr ''lisa''), (''style'', PStr ''casual-sitting''),
                          (''background_color'', PStr ''#FFFFFF'')]),
      (''personality'', PDict [(''role'', PStr ''Helpful Assistant''),
                               (''traits'', PList [PStr ''helpful'', PStr ''friendly'',
                                                   PStr ''professional''])]),
      (''system_prompt'', PStr ''You are a helpful AI assistant.'')]"

text \<open>
  \<^verbatim>\<open>load_persona\<close> never raises: a persona that cannot be read is replaced by the
  default one.
\<close>

definition load_persona :: "environment \<Rightarrow> engine \<Rightarrow> string option \<Rightarrow> engine" where
  "load_persona env e persona_path =
     (let path = (case persona_path of
                    None \<Rightarrow> ''instances/'' @ instance_name e @ ''/persona.yaml''
                  | Some p \<Rightarrow> if p = [] then ''instances/'' @ instance_name e @ ''/persona.yaml''
                              else p)
      in case read_persona env path of
           Returned d \<Rightarrow> logs [PersonaRead path, LogInfo ''Persona loaded''] (e\<lparr>persona := Some d\<rparr>)
         | Raised x \<Rightarrow>
             logs [PersonaRead path, LogError (''Failed to load persona: '' @ x)]
               (e\<lparr>persona := Some get_default_persona\<rparr>))"

text \<open>
  \<^verbatim>\<open>_load_plugin\<close>: the plugin file is looked for under \<^verbatim>\<open>plugins/\<close>, then under the
  instance's \<^verbatim>\<open>tools/\<close>. A new instance of its class is stored under the plugin's name
  before \<^verbatim>\<open>initialize(config)\<close> is called on it, so it stays registered when that raises.
\<close>

definition load_plugin ::
  "environment \<Rightarrow> engine \<Rightarrow> string \<Rightarrow> plugin_config \<Rightarrow> unit outcome \<times> engine" where
  "load_plugin env e plugin_name plugin_config =
     (let shared_path = ''plugins/'' @ plugin_name @ ''.py'';
          plugin_path = (if \<not> path_exists env shared_path
                         then ''instances/'' @ instance_name e @ ''/tools/'' @ plugin_name @ ''.py''
                         else shared_path)
      in if path_exists env plugin_path then
           (case plugin_class env plugin_path of
              None \<Rightarrow> (Returned (), e)
            | Some (Raised x) \<Rightarrow> (Raised x, e)
            | Some (Returned p) \<Rightarrow>
                (let e1 = logs [PluginCreated plugin_name, PluginInitialize plugin_name]
                            (e\<lparr>plugins := AList.update plugin_name p (plugins e)\<rparr>)
                 in case plugin_initialize p (plugin_config_dict plugin_config) of
                      Raised x \<Rightarrow> (Raised x, e1)
                    | Returned ok \<Rightarrow>
                        (Returned (), logs [LogInfo (''Plugin loaded: '' @ plugin_name)] e1)))
         else (Returned (), e))"

fun load_plugins_loop :: "environment \<Rightarrow> engine \<Rightarrow> plugin_config list \<Rightarrow> engine" where
  "load_plugins_loop env e [] = e"
| "load_plugins_loop env e (plugin_config # rest) =
     (let plugin_name = plugin_config_name plugin_config
      in case load_plugin env e plugin_name plugin_config of
           (Raised x, e1) \<Rightarrow>
             load_plugins_loop env
               (logs [LogError (''Failed to load plugin '' @ plugin_name @ '': '' @ x)] e1) rest
         | (Returned u, e1) \<Rightarrow> load_plugins_loop env e1 rest)"

text \<open>
  \<^verbatim>\<open>load_plugins(plugin_list=None)\<close>: an empty or missing list is replaced by the
  configured one; iterating \<^verbatim>\<open>None\<close> (no list and no configuration) raises.
\<close>

definition load_plugins ::
  "environment \<Rightarrow> engine \<Rightarrow> plugin_config list option \<Rightarrow> unit outcome \<times> engine" where
  "load_plugins env e plugin_list =
     (let plugin_list1 =
            (if (plugin_list = None \<or> plugin_list = Some []) \<and> config e \<noteq> None
             then map_option plugins_config (config e) else plugin_list)
      in case plugin_list1 of
           None \<Rightarrow> (Raised ''TypeError: NoneType object is not iterable'', e)
         | Some l \<Rightarrow> (Returned (), load_plugins_loop env e l))"

text \<open>
  \<^verbatim>\<open>initialize\<close>. Configuration and persona are loaded only when not yet there; the
  realtime proxy, the speech handler and the plugins are created on every call. An
  exception is logged and raised again.
\<close>

definition initialize_body :: "environment \<Rightarrow> engine \<Rightarrow> unit outcome \<times> engine" where
  "initialize_body env e =
     (case (if config e = None then load_config env e else (Returned (), e)) of
        (Raised x, e1) \<Rightarrow> (Raised x, e1)
      | (Returned u, e1) \<Rightarrow>
          (let e2 = (if persona e1 = None \<or> persona e1 = Some [] then load_persona env e1 None
                     else e1)
           in case config e2 of
                None \<Rightarrow> (Raised ''AttributeError: NoneType object has no attribute get'', e2)
              | Some c \<Rightarrow>
                  (let e3 = (if truthy (dict_get (azure c) ''openai'' PNone)
                             then logs [ProxyCreated, LogInfo ''Realtime proxy initialized'']
                                    (e2\<lparr>realtime_proxy := Some new_realtime_proxy\<rparr>)
                             else e2);
                       e4 = (if truthy (dict_get (azure c) ''speech'' PNone)
                             then logs [SpeechCreated, LogInfo ''Speech handler initialized'']
                                    (e3\<lparr>speech_handler := Some \<lparr>avatar_connected = False\<rparr>\<rparr>)
                             else e3)
                   in case load_plugins env e4 None of
                        (Raised x, e5) \<Rightarrow> (Raised x, e5)
                      | (Returned v, e5) \<Rightarrow>
                          (Returned (),
                           logs [LogInfo (''Avatar engine initialized for instance: ''
                                          @ instance_name e5)]
                             (e5\<lparr>initialized := True\<rparr>)))))"

definition initialize :: "environment \<Rightarrow> engine \<Rightarrow> unit outcome \<times> engine" where
  "initialize env e =
     (case initialize_body env e of
        (Raised x, e1) \<Rightarrow>
          (Raised x, logs [LogError (''Failed to initialize avatar engine: '' @ x)] e1)
      | (Returned u, e1) \<Rightarrow> (Returned (), e1))"

text \<open>
  The speech collaborator, at its interface: \<^verbatim>\<open>start_avatar\<close>, \<^verbatim>\<open>stop_avatar\<close> and
  \<^verbatim>\<open>speak\<close> catch their own failures and answer with a boolean, which the engine ignores.
\<close>

definition start_avatar :: "environment \<Rightarrow> speech_handler \<Rightarrow> bool \<times> speech_handler" where
  "start_avatar env h =
     (if avatar_starts env then (True, h\<lparr>avatar_connected := True\<rparr>) else (False, h))"

definition stop_avatar :: "speech_handler \<Rightarrow> bool \<times> speech_handler" where
  "stop_avatar h =
     (if avatar_connected h then (True, h\<lparr>avatar_connected := False\<rparr>) else (False, h))"

text \<open>
  The dicts the session operations return: \<^verbatim>\<open>{'error': ...}\<close>,
  \<^verbatim>\<open>{'session_id': ..., 'status': ...}\<close>, the same with the final metrics and the session
  duration, and the merged response of the pipeline.
\<close>

datatype result =
    ErrorResult string
  | SessionResult string string
  | StoppedResult "string option" string "(string \<times> int) list" real
  | ResponseResult response

definition fresh_session :: "string \<Rightarrow> clock \<Rightarrow> session_state" where
  "fresh_session sid clk =
     \<lparr>active = True, session_id = Some sid, start_time = Some (now clk), messages = [],
      metrics = [(''messages_sent'', 0), (''messages_received'', 0), (''tokens_used'', 0)]\<rparr>"

text \<open>
  \<^verbatim>\<open>start_session\<close>. The only guard is on \<^verbatim>\<open>_initialized\<close>; the session state is
  assigned afresh whatever it was. \<^verbatim>\<open>session_id or datetime.now().isoformat()\<close> takes the
  clock for a missing or empty id.
\<close>

definition start_session ::
  "environment \<Rightarrow> clock \<Rightarrow> engine \<Rightarrow> string option \<Rightarrow> result outcome \<times> engine" where
  "start_session env clk e sid_arg =
     (case (if \<not> initialized e then initialize env e else (Returned (), e)) of
        (Raised x, e0) \<Rightarrow> (Raised x, e0)
      | (Returned u, e0) \<Rightarrow>
          (let sid = (case sid_arg of None \<Rightarrow> now_iso clk
                      | Some s \<Rightarrow> if s = [] then now_iso clk else s);
               e1 = e0\<lparr>session_state := fresh_session sid clk\<rparr>;
               e2 = (case realtime_proxy e1 of
                       None \<Rightarrow> e1
                     | Some p \<Rightarrow>
                         logs [ProxyConnect]
                           (e1\<lparr>realtime_proxy := Some (snd (connect (socket_opens env) p))\<rparr>))
           in case speech_handler e2 of
                None \<Rightarrow>
                  (Returned (SessionResult sid ''active''),
                   logs [LogInfo (''Session started: '' @ sid)] e2)
              | Some h \<Rightarrow>
                  (case persona e2 of
                     None \<Rightarrow> (Raised ''AttributeError: NoneType object has no attribute get'', e2)
                   | Some per \<Rightarrow>
                       (Returned (SessionResult sid ''active''),
                        logs [StartAvatar, LogInfo (''Session started: '' @ sid)]
                          (e2\<lparr>speech_handler := Some (snd (start_avatar env h))\<rparr>)))))"

text \<open>\<^verbatim>\<open>_process_through_plugins\<close>: the loop over \<^verbatim>\<open>self.plugins\<close>, from the empty response.\<close>

definition process_through_plugins :: "engine \<Rightarrow> pydict \<Rightarrow> response \<times> event list" where
  "process_through_plugins e message =
     process_through_plugins_loop (plugins e) message empty_response"

text \<open>
  The merged response as the Python dict it is. \<^verbatim>\<open>if response:\<close> in
  \<^verbatim>\<open>process_message\<close> tests this dict, and \<^verbatim>\<open>response.get('speak', True)\<close> reads it.
\<close>

definition response_dict :: "response \<Rightarrow> pydict" where
  "response_dict r = [(''content'', PStr (content r)), (''metadata'', PDict (metadata r))]"

text \<open>\<^verbatim>\<open>d[k] += 1\<close> on a dict of counters: a missing key raises \<^verbatim>\<open>KeyError\<close>.\<close>

definition dict_incr :: "(string \<times> int) list \<Rightarrow> string \<Rightarrow> (string \<times> int) list outcome" where
  "dict_incr d k =
     (case map_of d k of
        None \<Rightarrow> Raised (''KeyError: '' @ k)
      | Some v \<Rightarrow> Returned (AList.update k (v + 1) d))"

definition append_message :: "history_entry \<Rightarrow> engine \<Rightarrow> engine" where
  "append_message entry e =
     e\<lparr>session_state := (session_state e)\<lparr>messages := messages (session_state e) @ [entry]\<rparr>\<rparr>"

definition set_metrics :: "(string \<times> int) list \<Rightarrow> engine \<Rightarrow> engine" where
  "set_metrics m e = e\<lparr>session_state := (session_state e)\<lparr>metrics := m\<rparr>\<rparr>"

text \<open>
  The block under \<^verbatim>\<open>if response:\<close> in \<^verbatim>\<open>process_message\<close>: the assistant entry is
  appended, and the speech handler, when there is one, is asked to speak.
\<close>

definition record_response :: "clock \<Rightarrow> response \<Rightarrow> engine \<Rightarrow> engine" where
  "record_response clk r e =
     (if response_dict r \<noteq> [] then
        (let e1 = append_message
                    \<lparr>role = ''assistant'',
                     entry_content = dict_get (response_dict r) ''content'' (PStr []),
                     timestamp = now_iso clk\<rparr> e
         in if speech_handler e1 \<noteq> None
               \<and> truthy (dict_get (response_dict r) ''speak'' (PBool True))
            then logs [Speak (content r)] e1 else e1)
      else e)"

text \<open>\<^verbatim>\<open>process_message\<close>.\<close>

definition process_message ::
  "clock \<Rightarrow> engine \<Rightarrow> pydict \<Rightarrow> result outcome \<times> engine" where
  "process_message clk e message =
     (if \<not> active (session_state e) then (Returned (ErrorResult ''No active session''), e)
      else
        (let content_in = dict_get message ''content'' (PStr []);
             e1 = append_message
                    \<lparr>role = ''user'', entry_content = content_in, timestamp = now_iso clk\<rparr> e;
             res = process_through_plugins e1 message;
             r = fst res;
             e2 = logs (snd res) e1;
             e3 = record_response clk r e2
         in case dict_incr (metrics (session_state e3)) ''messages_received'' of
              Raised x \<Rightarrow> (Raised x, e3)
            | Returned m1 \<Rightarrow>
                (case dict_incr m1 ''messages_sent'' of
                   Raised x \<Rightarrow> (Raised x, set_metrics m1 e3)
                 | Returned m2 \<Rightarrow> (Returned (ResponseResult r), set_metrics m2 e3))))"

text \<open>
  The cleanup loop of \<^verbatim>\<open>stop_session\<close>: each \<^verbatim>\<open>cleanup()\<close> is under its own
  \<^verbatim>\<open>try\<close>, so a failure is logged and the loop goes on.
\<close>

fun cleanup_plugins_isolated :: "(string \<times> plugin) list \<Rightarrow> event list" where
  "cleanup_plugins_isolated [] = []"
| "cleanup_plugins_isolated ((plugin_name, p) # rest) =
     (case plugin_cleanup p of
        None \<Rightarrow> cleanup_plugins_isolated rest
      | Some (Raised x) \<Rightarrow>
          [PluginCleanup plugin_name,
           LogError (''Plugin '' @ plugin_name @ '' cleanup error: '' @ x)]
          @ cleanup_plugins_isolated rest
      | Some (Returned u) \<Rightarrow> PluginCleanup plugin_name # cleanup_plugins_isolated rest)"

text \<open>\<^verbatim>\<open>stop_session\<close>.\<close>

definition stop_session :: "clock \<Rightarrow> engine \<Rightarrow> result outcome \<times> engine" where
  "stop_session clk e =
     (if \<not> active (session_state e) then (Returned (ErrorResult ''No active session''), e)
      else
        (let sid = session_id (session_state e);
             e1 = (case realtime_proxy e of
                     None \<Rightarrow> e
                   | Some p \<Rightarrow> logs [ProxyDisconnect] (e\<lparr>realtime_proxy := Some (disconnect p)\<rparr>));
             e2 = (case speech_handler e1 of
                     None \<Rightarrow> e1
                   | Some h \<Rightarrow>
                       logs [StopAvatar] (e1\<lparr>speech_handler := Some (snd (stop_avatar h))\<rparr>));
             e3 = logs (cleanup_plugins_isolated (plugins e2)) e2
         in case start_time (session_state e3) of
              None \<Rightarrow> (Raised ''TypeError: unsupported operand type(s) for -'', e3)
            | Some t0 \<Rightarrow>
                (Returned (StoppedResult sid ''stopped'' (metrics (session_state e3))
                             (now clk - t0)),
                 logs [LogInfo ''Session stopped'']
                   (e3\<lparr>session_state := (session_state e3)\<lparr>active := False\<rparr>\<rparr>))))"

definition get_conversation_history :: "engine \<Rightarrow> history_entry list" where
  "get_conversation_history e = messages (session_state e)"

section \<open>The instance registry (\<^verbatim>\<open>factory/instance_manager.py\<close>)\<close>

text \<open>
  \<^verbatim>\<open>AvatarFactory.create_avatar\<close> (\<^verbatim>\<open>factory/avatar_factory.py\<close>): the engine is built
  and its configuration, persona and plugins are loaded; every exception is raised again.
  Loading the instance's tools and knowledge base follows in the source; both catch their
  own failures and touch only the tool table and the documents of the RAG plugin, which
  this model does not carry.
\<close>

definition create_avatar :: "environment \<Rightarrow> string \<Rightarrow> engine outcome" where
  "create_avatar env name =
     (let path = ''instances/'' @ name @ ''/config.yaml''
      in if \<not> path_exists env path
         then Raised (''Instance configuration not found: '' @ path)
         else
           (let avatar = logs [LogInfo (''Creating avatar instance: '' @ name)]
                           (new_engine name (Some path))
            in case load_config env avatar of
                 (Raised x, a1) \<Rightarrow> Raised x
               | (Returned u, a1) \<Rightarrow>
                   (let persona_path = ''instances/'' @ name @ ''/persona.yaml'';
                        a2 = (if path_exists env persona_path
                              then load_persona env a1 (Some persona_path)
                              else load_persona env
                                     (logs [LogWarning (''No persona found for '' @ name
                                                        @ '', using default'')] a1) None)
                    in case load_plugins env a2 None of
                         (Raised x, a3) \<Rightarrow> Raised x
                       | (Returned v, a3) \<Rightarrow>
                           Returned (logs [LogInfo (''Avatar instance created successfully: ''
                                                    @ name)] a3))))"

record instance_meta =
  started_at :: string
  status :: string
  sessions :: int
  stopped_at :: "string option"

record instance_manager =
  instances :: "(string \<times> engine) list"
  instance_metadata :: "(string \<times> instance_meta) list"
  max_instances :: int
  manager_log :: "event list"

text \<open>\<^verbatim>\<open>InstanceManager.__init__\<close>: no instance, at most ten.\<close>

definition new_instance_manager :: instance_manager where
  "new_instance_manager =
     \<lparr>instances = [], instance_metadata = [], max_instances = 10, manager_log = []\<rparr>"

definition mlog :: "event list \<Rightarrow> instance_manager \<Rightarrow> instance_manager" where
  "mlog evs m = m\<lparr>manager_log := manager_log m @ evs\<rparr>"

text \<open>
  \<^verbatim>\<open>start_instance\<close>. The whole body is under \<^verbatim>\<open>try\<close>: a failure to create or
  initialise the engine is logged and answered with \<^verbatim>\<open>False\<close>.
\<close>

definition start_instance ::
  "environment \<Rightarrow> clock \<Rightarrow> instance_manager \<Rightarrow> string \<Rightarrow> bool \<times> instance_manager" where
  "start_instance env clk m name =
     (if dict_contains name (instances m)
      then (True, mlog [LogWarning (''Instance '' @ name @ '' is already running'')] m)
      else if int (length (instances m)) \<ge> max_instances m
      then (False, mlog [LogError ''Maximum instance limit reached''] m)
      else
        (case create_avatar env name of
           Raised x \<Rightarrow>
             (False, mlog [LogError (''Failed to create avatar instance '' @ name @ '': '' @ x),
                           LogError (''Failed to start instance '' @ name @ '': '' @ x)] m)
         | Returned avatar \<Rightarrow>
             (case initialize env avatar of
                (Raised x, a1) \<Rightarrow>
                  (False, mlog [LogError (''Failed to start instance '' @ name @ '': '' @ x)] m)
              | (Returned u, a1) \<Rightarrow>
                  (True,
                   mlog [LogInfo (''Instance started: '' @ name)]
                     (m\<lparr>instances := AList.update name a1 (instances m),
                        instance_metadata :=
                          AList.update name
                            \<lparr>started_at = now_iso clk, status = ''running'', sessions = 0,
                             stopped_at = None\<rparr>
                            (instance_metadata m)\<rparr>)))))"

text \<open>
  The cleanup loop of \<^verbatim>\<open>stop_instance\<close>. Unlike the loop of \<^verbatim>\<open>stop_session\<close> it has
  no \<^verbatim>\<open>try\<close> of its own: the first \<^verbatim>\<open>cleanup()\<close> that raises ends it, and the
  exception goes to the handler around the whole of \<^verbatim>\<open>stop_instance\<close>.
\<close>

fun cleanup_plugins :: "(string \<times> plugin) list \<Rightarrow> unit outcome \<times> event list" where
  "cleanup_plugins [] = (Returned (), [])"
| "cleanup_plugins ((plugin_name, p) # rest) =
     (case plugin_cleanup p of
        None \<Rightarrow> cleanup_plugins rest
      | Some (Raised x) \<Rightarrow> (Raised x, [PluginCleanup plugin_name])
      | Some (Returned u) \<Rightarrow> emit [PluginCleanup plugin_name] (cleanup_plugins rest))"

text \<open>
  \<^verbatim>\<open>stop_instance\<close>. The engine in the registry is the object the session stop and the
  cleanups work on, so on the failure path it stays registered as they left it. The
  events of the cleanup loop are kept in the manager's log.
\<close>

definition stop_instance ::
  "clock \<Rightarrow> instance_manager \<Rightarrow> string \<Rightarrow> bool \<times> instance_manager" where
  "stop_instance clk m name =
     (case map_of (instances m) name of
        None \<Rightarrow> (False, mlog [LogWarning (''Instance '' @ name @ '' is not running'')] m)
      | Some avatar \<Rightarrow>
          (case (if active (session_state avatar) then stop_session clk avatar
                 else (Returned (ErrorResult []), avatar)) of
             (Raised x, a1) \<Rightarrow>
               (False,
                mlog [LogError (''Failed to stop instance '' @ name @ '': '' @ x)]
                  (m\<lparr>instances := AList.update name a1 (instances m)\<rparr>))
           | (Returned res, a1) \<Rightarrow>
               (case cleanup_plugins (plugins a1) of
                  (Raised x, evs) \<Rightarrow>
                    (False,
                     mlog (evs @ [LogError (''Failed to stop instance '' @ name @ '': '' @ x)])
                       (m\<lparr>instances := AList.update name a1 (instances m)\<rparr>))
                | (Returned u, evs) \<Rightarrow>
                    (True,
                     mlog (evs @ [LogInfo (''Instance stopped: '' @ name)])
                       (m\<lparr>instances := AList.delete name (instances m),
                          instance_metadata :=
                            (case map_of (instance_metadata m) name of
                               None \<Rightarrow> instance_metadata m
                             | Some meta \<Rightarrow>
                                 AList.update name
                                   (meta\<lparr>status := ''stopped'', stopped_at := Some (now_iso clk)\<rparr>)
                                   (instance_metadata m))\<rparr>)))))"

text \<open>\<^verbatim>\<open>restart_instance\<close>: stop when running, whatever the stop answers, then start.\<close>

definition restart_instance ::
  "environment \<Rightarrow> clock \<Rightarrow> instance_manager \<Rightarrow> string \<Rightarrow> bool \<times> instance_manager" where
  "restart_instance env clk m name =
     (let m1 = (if dict_contains name (instances m) then snd (stop_instance clk m name) else m)
      in start_instance env clk m1 name)"

definition get_instance :: "instance_manager \<Rightarrow> string \<Rightarrow> engine option" where
  "get_instance m name = map_of (instances m) name"

definition list_running_instances :: "instance_manager \<Rightarrow> string list" where
  "list_running_instances m = dict_keys (instances m)"

text \<open>
  \<^verbatim>\<open>InstanceManager.process_message\<close>: the registry's own checks, then the engine's
  \<^verbatim>\<open>process_message\<close> on the registered engine.
\<close>

definition manager_process_message ::
  "clock \<Rightarrow> instance_manager \<Rightarrow> string \<Rightarrow> pydict \<Rightarrow> result outcome \<times> instance_manager" where
  "manager_process_message clk m name message =
     (case get_instance m name of
        None \<Rightarrow> (Returned (ErrorResult (''Instance '' @ name @ '' not running'')), m)
      | Some avatar \<Rightarrow>
          if \<not> active (session_state avatar)
          then (Returned (ErrorResult ''No active session''), m)
          else (case process_message clk avatar message of
                  (r, a1) \<Rightarrow> (r, m\<lparr>instances := AList.update name a1 (instances m)\<rparr>)))"

text \<open>A call on the registry, and a run of calls, each with the world and clock of its time.\<close>

datatype registry_call = StartInstance string | StopInstance string | RestartInstance string

fun registry_step ::
  "instance_manager \<Rightarrow> environment \<times> clock \<times> registry_call \<Rightarrow> instance_manager" where
  "registry_step m (env, clk, StartInstance name) = snd (start_instance env clk m name)"
| "registry_step m (env, clk, StopInstance name) = snd (stop_instance clk m name)"
| "registry_step m (env, clk, RestartInstance name) = snd (restart_instance env clk m name)"

definition registry_run ::
  "instance_manager \<Rightarrow> (environment \<times> clock \<times> registry_call) list \<Rightarrow> instance_manager" where
  "registry_run m calls = foldl registry_step m calls"

section \<open>Vocabulary of the properties\<close>

text \<open>
  What the pipeline takes from a plugin for a message: nothing when the plugin has no
  \<^verbatim>\<open>process\<close>, raises or returns a falsy value, its response otherwise. A plugin stops the
  pipeline when that response is final.
\<close>

definition reply :: "plugin \<Rightarrow> pydict \<Rightarrow> plugin_response option" where
  "reply p message =
     (case plugin_process p of
        None \<Rightarrow> None
      | Some process \<Rightarrow> (case process message of Raised e \<Rightarrow> None | Returned r \<Rightarrow> r))"

definition stops :: "plugin \<Rightarrow> pydict \<Rightarrow> bool" where
  "stops p message = (case reply p message of None \<Rightarrow> False | Some pr \<Rightarrow> final pr)"

definition has_process :: "string \<times> plugin \<Rightarrow> bool" where
  "has_process np = (plugin_process (snd np) \<noteq> None)"


text \<open>
  The plugins the iteration reaches, in registration order: all of them up to and
  including the first one that stops the pipeline. \<open>replies\<close> are the responses they give.
\<close>

fun reached :: "(string \<times> plugin) list \<Rightarrow> pydict \<Rightarrow> (string \<times> plugin) list" where
  "reached [] message = []"
| "reached ((n, p) # rest) message =
     (n, p) # (if stops p message then [] else reached rest message)"

definition replies :: "(string \<times> plugin) list \<Rightarrow> pydict \<Rightarrow> plugin_response list" where
  "replies ps message = List.map_filter (\<lambda>np. reply (snd np) message) (reached ps message)"

text \<open>The names of the plugins whose \<^verbatim>\<open>process\<close> was called, read off a list of events.\<close>

fun invoked :: "event list \<Rightarrow> string list" where
  "invoked [] = []"
| "invoked (PluginProcess n # evs) = n # invoked evs"
| "invoked (ev # evs) = invoked evs"

text \<open>Last writer wins: the last non-empty content of a list of responses.\<close>

definition last_content :: "string \<Rightarrow> plugin_response list \<Rightarrow> string" where
  "last_content c0 rs =
     (case filter (\<lambda>c. c \<noteq> []) (map content rs) of [] \<Rightarrow> c0 | cs \<Rightarrow> last cs)"

text \<open>
  The mapping that storing the items of a dict one after the other gives. For a dict,
  whose keys are distinct, it is the dict's own mapping (lemma \<open>items_map_dict\<close>).
\<close>

definition items_map :: "(string \<times> 'v) list \<Rightarrow> (string \<rightharpoonup> 'v)" where
  "items_map d = map_of (rev d)"


text \<open>
  The events by which \<^verbatim>\<open>initialize\<close> touches the outside world: reading the
  configuration or persona file, and creating the proxy, the speech handler or a plugin.
\<close>

fun is_file_read :: "event \<Rightarrow> bool" where
  "is_file_read (ConfigRead path) = True"
| "is_file_read (PersonaRead path) = True"
| "is_file_read ev = False"





section \<open>Example inputs\<close>

text \<open>
  Plugins that always answer with a given response, and one whose \<^verbatim>\<open>process\<close> and
  \<^verbatim>\<open>cleanup\<close> both raise.
\<close>

definition answering_plugin :: "string \<Rightarrow> pydict \<Rightarrow> bool \<Rightarrow> plugin" where
  "answering_plugin c md fin =
     \<lparr>plugin_initialize = (\<lambda>cfg. Returned True),
      plugin_process =
        Some (\<lambda>message. Returned (Some \<lparr>content = c, metadata = md, final = fin\<rparr>)),
      plugin_cleanup = Some (Returned ())\<rparr>"

definition raising_plugin :: plugin where
  "raising_plugin =
     \<lparr>plugin_initialize = (\<lambda>cfg. Returned True),
      plugin_process = Some (\<lambda>message. Raised ''boom''),
      plugin_cleanup = Some (Raised ''cleanup failed'')\<rparr>"

definition silent_plugin :: plugin where
  "silent_plugin =
     \<lparr>plugin_initialize = (\<lambda>cfg. Returned True),
      plugin_process = Some (\<lambda>message. Returned None),
      plugin_cleanup = Some (Returned ())\<rparr>"

definition hello :: pydict where
  "hello = [(''type'', PStr ''text''), (''content'', PStr ''hello'')]"

definition rag_plugin :: plugin where
  "rag_plugin =
     answering_plugin ''ctx''
       [(''plugin'', PStr ''RAGPlugin''), (''retrieved_docs'', PInt 1)] False"

definition tools_plugin :: plugin where
  "tools_plugin =
     answering_plugin ''Tool X: result''
       [(''plugin'', PStr ''ToolsPlugin''), (''tools_executed'', PInt 1)] True"

definition third_plugin :: plugin where
  "third_plugin = answering_plugin ''third'' [(''third'', PBool True)] False"

definition scenario_plugins :: "(string \<times> plugin) list" where
  "scenario_plugins =
     [(''rag_plugin'', rag_plugin), (''tools_plugin'', tools_plugin),
      (''third_plugin'', third_plugin)]"

text \<open>
  A world in which every instance has the same configuration (realtime and speech
  configured, one plugin) and no persona file, and a clock.
\<close>

definition demo_config :: config where
  "demo_config =
     \<lparr>azure = [(''openai'', PDict [(''endpoint'', PStr ''https://example'')]),
               (''speech'', PDict [(''region'', PStr ''westus2'')])],
      plugins_config = [PluginEntry ''rag_plugin'' []]\<rparr>"

definition demo_env :: environment where
  "demo_env =
     \<lparr>path_exists = (\<lambda>path. path \<noteq> ''instances/ghost/config.yaml''),
      read_config = (\<lambda>path. Returned demo_config),
      read_persona = (\<lambda>path. Raised ''No such file''),
      plugin_class = (\<lambda>path. if path = ''plugins/rag_plugin.py''
                               then Some (Returned rag_plugin) else None),
      socket_opens = True,
      avatar_starts = False\<rparr>"

definition demo_clock :: clock where
  "demo_clock = \<lparr>now = 0, now_iso = ''2025-01-01T00:00:00''\<rparr>"

text \<open>
  The engine \<^verbatim>\<open>start_instance\<close> registers for the instance \<open>demo\<close> in that world
  (created by the factory, then initialized), the registry that holds it, and the same
  engine with a session under way.
\<close>

definition demo_avatar :: engine where
  "demo_avatar =
     (case create_avatar demo_env ''demo'' of
        Returned avatar \<Rightarrow> avatar
      | Raised x \<Rightarrow> new_engine ''demo'' None)"

definition demo_engine :: engine where
  "demo_engine = snd (initialize demo_env demo_avatar)"

definition demo_manager :: instance_manager where
  "demo_manager =
     \<lparr>instances = [(''demo'', demo_engine)],
      instance_metadata =
        [(''demo'', \<lparr>started_at = ''2025-01-01T00:00:00'', status = ''running'', sessions = 0,
                      stopped_at = None\<rparr>)],
      max_instances = 10,
      manager_log = [LogInfo ''Instance started: demo'']\<rparr>"


text \<open>
  The same world with a plugin that never produces a response, and one whose instances
  have two plugins, the first of which fails in \<^verbatim>\<open>cleanup\<close>.
\<close>

definition quiet_env :: environment where
  "quiet_env =
     demo_env\<lparr>plugin_class := (\<lambda>path. if path = ''plugins/rag_plugin.py''
                                        then Some (Returned silent_plugin) else None)\<rparr>"

definition quiet_session :: engine where
  "quiet_session =
     snd (start_session quiet_env demo_clock
            (snd (initialize quiet_env (new_engine ''demo'' None))) (Some ''s1''))"

definition faulty_env :: environment where
  "faulty_env =
     demo_env\<lparr>read_config := (\<lambda>path. Returned
                   \<lparr>azure = [],
                    plugins_config = [PluginName ''bad_plugin'', PluginName ''good_plugin'']\<rparr>),
              plugin_class := (\<lambda>path. if path = ''plugins/bad_plugin.py''
                                        then Some (Returned raising_plugin)
                                        else if path = ''plugins/good_plugin.py''
                                        then Some (Returned silent_plugin) else None)\<rparr>"

definition faulty_manager :: instance_manager where
  "faulty_manager = snd (start_instance faulty_env demo_clock new_instance_manager ''a'')"

text \<open>
  The capacity scenario of the specification: a registry for at most two instances, in
  which \<open>a\<close> and \<open>b\<close> are started.
\<close>

definition small_manager :: instance_manager where
  "small_manager = new_instance_manager\<lparr>max_instances := 2\<rparr>"

definition two_running :: instance_manager where
  "two_running =
     registry_run small_manager
       [(demo_env, demo_clock, StartInstance ''a''), (demo_env, demo_clock, StartInstance ''b'')]"



section \<open>Dictionaries\<close>

lemma items_map_dict: "distinct (map fst d) \<Longrightarrow> items_map d = map_of d"
proof (induction d)
  case Nil
  then show ?case by (simp add: items_map_def)
next
  case (Cons kv d)
  then have "fst kv \<notin> dom (map_of d)"
    by (simp add: dom_map_of_conv_image_fst)
  then have "map_of [kv] ++ map_of d = (map_of d)(fst kv \<mapsto> snd kv)"
    by (cases kv) (auto simp: fun_eq_iff map_add_def dom_def split: option.splits)
  with Cons show ?case
    by (cases kv) (simp add: items_map_def)
qed

lemma map_of_dict_update: "map_of (dict_update d d2) = map_of d ++ items_map d2"
  unfolding dict_update_def items_map_def
proof (induction d2 arbitrary: d)
  case Nil
  then show ?case by simp
next
  case (Cons kv d2)
  have "map_of (AList.update (fst kv) (snd kv) d) ++ map_of (rev d2)
          = map_of d ++ (map_of [kv] ++ map_of (rev d2))"
    by (cases kv) (simp add: update_conv' fun_eq_iff map_add_def split: option.splits)
  with Cons.IH show ?case by simp
qed

lemma dict_keys_dict_update:
  "set (dict_keys (dict_update d d2)) = set (dict_keys d) \<union> set (dict_keys d2)"
  unfolding dict_update_def dict_keys_def
  by (induction d2 arbitrary: d) (auto simp: dom_update)

lemma distinct_dict_update:
  "distinct (dict_keys d) \<Longrightarrow> distinct (dict_keys (dict_update d d2))"
  unfolding dict_update_def dict_keys_def
  by (induction d2 arbitrary: d) (simp_all add: distinct_update)

section \<open>The plugin pipeline\<close>

lemma invoked_append: "invoked (xs @ ys) = invoked xs @ invoked ys"
  by (induction xs rule: invoked.induct) auto

lemma invoked_emit: "invoked (snd (emit evs res)) = invoked evs @ invoked (snd res)"
  by (simp add: emit_def invoked_append)

lemma fst_emit: "fst (emit evs res) = fst res"
  by (simp add: emit_def)

text \<open>The loop folds the responses of the reached plugins into the merged response.\<close>

lemma loop_response:
  "fst (process_through_plugins_loop ps message r) = foldl merge_response r (replies ps message)"
  by (induction ps message r rule: process_through_plugins_loop.induct)
     (auto simp: replies_def reply_def stops_def List.map_filter_simps fst_emit
           split: option.splits outcome.splits)

lemma loop_invoked:
  "invoked (snd (process_through_plugins_loop ps message r)) =
     map fst (filter has_process (reached ps message))"
  by (induction ps message r rule: process_through_plugins_loop.induct)
     (auto simp: reply_def stops_def has_process_def invoked_emit
           split: option.splits outcome.splits)

lemma content_merge:
  "content (merge_response r pr) = (if content pr \<noteq> [] then content pr else content r)"
  by (simp add: merge_response_def Let_def)

lemma content_foldl: "content (foldl merge_response r rs) = last_content (content r) rs"
  by (induction rs arbitrary: r) (auto simp: last_content_def content_merge split: list.splits)

lemma metadata_merge:
  "map_of (metadata (merge_response r pr)) = map_of (metadata r) ++ items_map (metadata pr)"
  by (simp add: merge_response_def Let_def map_of_dict_update items_map_def)

lemma metadata_foldl:
  "map_of (metadata (foldl merge_response r rs)) =
     foldl (++) (map_of (metadata r)) (map (\<lambda>pr. items_map (metadata pr)) rs)"
  by (induction rs arbitrary: r) (auto simp: metadata_merge)

lemma keys_merge:
  "set (dict_keys (metadata (merge_response r pr))) =
     set (dict_keys (metadata r)) \<union> set (dict_keys (metadata pr))"
  by (simp add: merge_response_def Let_def dict_keys_dict_update) (simp add: dict_keys_def)

lemma keys_foldl:
  "set (dict_keys (metadata (foldl merge_response r rs))) =
     set (dict_keys (metadata r)) \<union> (\<Union>pr\<in>set rs. set (dict_keys (metadata pr)))"
  by (induction rs arbitrary: r) (auto simp: keys_merge)

text \<open>What \<open>reached\<close> is: everything when no plugin stops, the prefix up to the first stop.\<close>

lemma reached_no_stop:
  "\<forall>np\<in>set ps. \<not> stops (snd np) message \<Longrightarrow> reached ps message = ps"
  by (induction ps) auto

lemma reached_stop:
  "\<forall>np\<in>set pre. \<not> stops (snd np) message \<Longrightarrow> stops p message \<Longrightarrow>
   reached (pre @ (n, p) # post) message = pre @ [(n, p)]"
  by (induction pre) auto


text \<open>
  C3. The pipeline iterates the plugins in registration order up to and including the
  first final response: the plugins whose \<^verbatim>\<open>process\<close> is called are exactly the reached
  ones, in that order, so no plugin after a final response is invoked. The merged content
  is the last non-empty content among their responses (empty when there is none), the
  merged metadata has the keys of all their metadata, and on a conflict the later
  response's value overwrites the earlier one.
\<close>

theorem pipeline_merge:
  "invoked (snd (process_through_plugins e message)) =
     map fst (filter has_process (reached (plugins e) message))
   \<and> content (fst (process_through_plugins e message)) =
       last_content [] (replies (plugins e) message)
   \<and> set (dict_keys (metadata (fst (process_through_plugins e message)))) =
       (\<Union>pr\<in>set (replies (plugins e) message). set (dict_keys (metadata pr)))
   \<and> map_of (metadata (fst (process_through_plugins e message))) =
       foldl (++) Map.empty
         (map (\<lambda>pr. items_map (metadata pr)) (replies (plugins e) message))"
proof -
  have keys0: "set (dict_keys (metadata empty_response)) = {}"
    by (simp add: empty_response_def dict_keys_def)
  have map0: "map_of (metadata empty_response) = Map.empty"
    by (simp add: empty_response_def)
  have content0: "content empty_response = []"
    by (simp add: empty_response_def)
  show ?thesis
    unfolding process_through_plugins_def
    by (simp add: loop_response loop_invoked content_foldl metadata_foldl keys_foldl
          keys0 map0 content0)
qed

text \<open>
  The scenario of the specification: RAG answers \<open>ctx\<close> (not final), Tools answers
  \<open>Tool X: result\<close> (final), a third plugin follows. The third plugin is never invoked.
\<close>

theorem pipeline_merge_witness:
  "invoked (snd (process_through_plugins
                   ((new_engine ''demo'' None)\<lparr>plugins := scenario_plugins\<rparr>) hello))
     = [''rag_plugin'', ''tools_plugin'']
   \<and> content (fst (process_through_plugins
                     ((new_engine ''demo'' None)\<lparr>plugins := scenario_plugins\<rparr>) hello))
       = ''Tool X: result''
   \<and> set (dict_keys (metadata (fst (process_through_plugins
                     ((new_engine ''demo'' None)\<lparr>plugins := scenario_plugins\<rparr>) hello))))
       = {''plugin'', ''retrieved_docs'', ''tools_executed''}
   \<and> map_of (metadata (fst (process_through_plugins
                     ((new_engine ''demo'' None)\<lparr>plugins := scenario_plugins\<rparr>) hello)))
         ''plugin'' = Some (PStr ''ToolsPlugin'')"
  using pipeline_merge [of "(new_engine ''demo'' None)\<lparr>plugins := scenario_plugins\<rparr>" hello]
  by (simp add: new_engine_def scenario_plugins_def rag_plugin_def tools_plugin_def
        third_plugin_def answering_plugin_def replies_def reply_def stops_def has_process_def
        last_content_def List.map_filter_simps items_map_def dict_keys_def hello_def)
     auto

section \<open>The realtime connection\<close>

lemma send_disconnected:
  "\<not> is_connected p \<Longrightarrow>
   send p message = (False, p\<lparr>message_queue := message_queue p @ [message]\<rparr>)"
  by (simp add: send_def)

lemma send_each_disconnected:
  "\<not> is_connected p \<Longrightarrow> send_each p ms = p\<lparr>message_queue := message_queue p @ ms\<rparr>"
  by (induction ms arbitrary: p) (simp_all add: send_def)

text \<open>On an open socket every message of the walk is written, in the order of the walk.\<close>

lemma send_each_open:
  "is_connected p \<Longrightarrow> ws p = Some w \<Longrightarrow> sock_open w \<Longrightarrow>
   send_each p ms = p\<lparr>ws := Some (w\<lparr>wire := wire w @ map frame_of ms\<rparr>)\<rparr>"
proof (induction ms arbitrary: p w)
  case Nil
  then show ?case by simp
next
  case (Cons m ms)
  have step: "snd (send p m) = p\<lparr>ws := Some (w\<lparr>wire := wire w @ [frame_of m]\<rparr>)\<rparr>"
    using Cons.prems by (simp add: send_def ws_send_def)
  show ?case
    using Cons.prems Cons.IH [of "p\<lparr>ws := Some (w\<lparr>wire := wire w @ [frame_of m]\<rparr>)\<rparr>"
                                 "w\<lparr>wire := wire w @ [frame_of m]\<rparr>"]
    by (simp add: step)
qed

lemma on_open_flush:
  assumes "ws p = Some w" and "sock_open w"
  shows "on_open p =
           p\<lparr>ws := Some (w\<lparr>wire := wire w @ map frame_of (message_queue p)\<rparr>),
             is_connected := True, message_queue := [],
             proxy_log := proxy_log p @ [LogInfo ''Realtime WebSocket connection established'']\<rparr>"
  using assms
  by (simp add: on_open_def Let_def proxy_logs_def send_each_open [where w = w])

text \<open>
  C5. A message sent while the proxy is not connected is appended to the queue and
  \<^verbatim>\<open>send\<close> answers \<^verbatim>\<open>False\<close>. When the socket opens, \<^verbatim>\<open>_on_open\<close> marks the proxy
  connected, writes the frame of every queued message to the socket in the order of the
  queue, and leaves the queue empty. End to end: after any messages \<open>ms\<close> sent while
  disconnected, a \<^verbatim>\<open>connect\<close> whose socket opens answers \<^verbatim>\<open>True\<close>, the wire holds the
  frames of the whole queue in enqueue order, and the queue is empty.
\<close>

theorem send_queue_flush:
  "(\<not> is_connected p \<longrightarrow>
      send p message = (False, p\<lparr>message_queue := message_queue p @ [message]\<rparr>))
   \<and> (ws p = Some w \<and> sock_open w \<longrightarrow>
        is_connected (on_open p) \<and> message_queue (on_open p) = []
        \<and> ws (on_open p) = Some (w\<lparr>wire := wire w @ map frame_of (message_queue p)\<rparr>))
   \<and> (\<not> is_connected p \<longrightarrow>
        fst (connect True (send_each p ms)) = True
        \<and> message_queue (snd (connect True (send_each p ms))) = []
        \<and> map_option wire (ws (snd (connect True (send_each p ms))))
            = Some (map frame_of (message_queue p @ ms)))"
proof (intro conjI impI)
  assume "\<not> is_connected p"
  then show "send p message = (False, p\<lparr>message_queue := message_queue p @ [message]\<rparr>)"
    by (rule send_disconnected)
next
  assume a: "ws p = Some w \<and> sock_open w"
  then have eq: "on_open p =
           p\<lparr>ws := Some (w\<lparr>wire := wire w @ map frame_of (message_queue p)\<rparr>),
             is_connected := True, message_queue := [],
             proxy_log := proxy_log p @ [LogInfo ''Realtime WebSocket connection established'']\<rparr>"
    by (simp add: on_open_flush)
  show "is_connected (on_open p)" by (simp add: eq)
  show "message_queue (on_open p) = []" by (simp add: eq)
  show "ws (on_open p) = Some (w\<lparr>wire := wire w @ map frame_of (message_queue p)\<rparr>)"
    by (simp add: eq)
next
  assume d: "\<not> is_connected p"
  let ?q = "send_each p ms"
  let ?w = "\<lparr>sock_open = True, wire = []\<rparr>"
  let ?p1 = "proxy_logs (LogInfo ''Connecting to WebSocket'') (?q\<lparr>ws := Some ?w\<rparr>)"
  have q: "?q = p\<lparr>message_queue := message_queue p @ ms\<rparr>"
    using d by (rule send_each_disconnected)
  have c: "connect True ?q = (is_connected (on_open ?p1), on_open ?p1)"
    by (simp add: connect_def Let_def)
  have o: "on_open ?p1 =
             ?p1\<lparr>ws := Some (?w\<lparr>wire := wire ?w @ map frame_of (message_queue ?p1)\<rparr>),
                 is_connected := True, message_queue := [],
                 proxy_log := proxy_log ?p1
                                @ [LogInfo ''Realtime WebSocket connection established'']\<rparr>"
    by (rule on_open_flush) (simp_all add: proxy_logs_def)
  show "fst (connect True ?q) = True" by (simp add: c o)
  show "message_queue (snd (connect True ?q)) = []" by (simp add: c o)
  show "map_option wire (ws (snd (connect True ?q))) = Some (map frame_of (message_queue p @ ms))"
    by (simp add: c o) (simp add: q proxy_logs_def)
qed

text \<open>
  Two messages sent before the connection is there, then the socket opens: both are on
  the wire, first sent first.
\<close>

theorem send_queue_flush_witness:
  "send new_realtime_proxy (DictMessage [(''type'', PStr ''session.update'')])
     = (False, new_realtime_proxy
                 \<lparr>message_queue := [DictMessage [(''type'', PStr ''session.update'')]]\<rparr>)
   \<and> fst (connect True (send_each new_realtime_proxy
             [DictMessage [(''type'', PStr ''session.update'')],
              DictMessage [(''type'', PStr ''response.create'')]]))
   \<and> message_queue (snd (connect True (send_each new_realtime_proxy
             [DictMessage [(''type'', PStr ''session.update'')],
              DictMessage [(''type'', PStr ''response.create'')]]))) = []
   \<and> map_option wire (ws (snd (connect True (send_each new_realtime_proxy
             [DictMessage [(''type'', PStr ''session.update'')],
              DictMessage [(''type'', PStr ''response.create'')]]))))
       = Some [JsonText [(''type'', PStr ''session.update'')],
               JsonText [(''type'', PStr ''response.create'')]]"
proof -
  have nc: "\<not> is_connected new_realtime_proxy"
    by (simp add: new_realtime_proxy_def)
  have q0: "message_queue new_realtime_proxy = []"
    by (simp add: new_realtime_proxy_def)
  note t = send_queue_flush [of new_realtime_proxy
          "DictMessage [(''type'', PStr ''session.update'')]" "\<lparr>sock_open = True, wire = []\<rparr>"
          "[DictMessage [(''type'', PStr ''session.update'')],
            DictMessage [(''type'', PStr ''response.create'')]]"]
  from t nc have a: "send new_realtime_proxy (DictMessage [(''type'', PStr ''session.update'')])
     = (False, new_realtime_proxy
                 \<lparr>message_queue := message_queue new_realtime_proxy
                     @ [DictMessage [(''type'', PStr ''session.update'')]]\<rparr>)"
    by blast
  from t nc have b: "fst (connect True (send_each new_realtime_proxy
             [DictMessage [(''type'', PStr ''session.update'')],
              DictMessage [(''type'', PStr ''response.create'')]])) = True
   \<and> message_queue (snd (connect True (send_each new_realtime_proxy
             [DictMessage [(''type'', PStr ''session.update'')],
              DictMessage [(''type'', PStr ''response.create'')]]))) = []
   \<and> map_option wire (ws (snd (connect True (send_each new_realtime_proxy
             [DictMessage [(''type'', PStr ''session.update'')],
              DictMessage [(''type'', PStr ''response.create'')]]))))
       = Some (map frame_of (message_queue new_realtime_proxy
             @ [DictMessage [(''type'', PStr ''session.update'')],
                DictMessage [(''type'', PStr ''response.create'')]]))"
    by blast
  show ?thesis
    using a b unfolding q0 by simp
qed

section \<open>The engine: what initialisation leaves alone\<close>

lemma session_state_logs [simp]: "session_state (logs evs e) = session_state e"
  by (simp add: logs_def)

lemma plugins_logs [simp]: "plugins (logs evs e) = plugins e"
  by (simp add: logs_def)

lemma speech_handler_logs [simp]: "speech_handler (logs evs e) = speech_handler e"
  by (simp add: logs_def)

lemma realtime_proxy_logs [simp]: "realtime_proxy (logs evs e) = realtime_proxy e"
  by (simp add: logs_def)

lemma config_logs [simp]: "config (logs evs e) = config e"
  by (simp add: logs_def)

lemma persona_logs [simp]: "persona (logs evs e) = persona e"
  by (simp add: logs_def)

lemma initialized_logs [simp]: "initialized (logs evs e) = initialized e"
  by (simp add: logs_def)

lemma trace_logs [simp]: "trace (logs evs e) = trace e @ evs"
  by (simp add: logs_def)

text \<open>
  A field that logging (of anything but a file read) and a change of the plugin table
  leave alone is left alone by loading plugins.
\<close>

lemma load_plugin_frame:
  assumes l: "\<And>evs e. filter is_file_read evs = [] \<Longrightarrow> f (logs evs e) = f e"
      and p: "\<And>ps e. f (e\<lparr>plugins := ps\<rparr>) = f e"
  shows "f (snd (load_plugin env e n pc)) = f e"
  by (simp add: load_plugin_def Let_def l p split: outcome.splits option.splits)

lemma load_plugins_loop_frame:
  assumes l: "\<And>evs e. filter is_file_read evs = [] \<Longrightarrow> f (logs evs e) = f e"
      and p: "\<And>ps e. f (e\<lparr>plugins := ps\<rparr>) = f e"
  shows "f (load_plugins_loop env e pcs) = f e"
proof (induction pcs arbitrary: e)
  case Nil
  then show ?case by simp
next
  case (Cons pc pcs)
  obtain r e1 where le: "load_plugin env e (plugin_config_name pc) pc = (r, e1)"
    by (cases "load_plugin env e (plugin_config_name pc) pc")
  then have "e1 = snd (load_plugin env e (plugin_config_name pc) pc)" by simp
  then have f1: "f e1 = f e" by (simp add: load_plugin_frame [of f, OF l p])
  show ?case
  proof (cases r)
    case (Raised x)
    then show ?thesis using le f1 Cons.IH by (simp add: Let_def l)
  next
    case (Returned u)
    then show ?thesis using le f1 Cons.IH by (simp add: Let_def)
  qed
qed

lemma load_plugins_frame:
  assumes l: "\<And>evs e. filter is_file_read evs = [] \<Longrightarrow> f (logs evs e) = f e"
      and p: "\<And>ps e. f (e\<lparr>plugins := ps\<rparr>) = f e"
  shows "f (snd (load_plugins env e pl)) = f e"
  by (simp add: load_plugins_def Let_def load_plugins_loop_frame [of f, OF l p]
           split: option.splits)




text \<open>The session state is not touched by \<^verbatim>\<open>initialize\<close>, whatever it has to load.\<close>

lemma session_state_load_config:
  "session_state (snd (load_config env e)) = session_state e"
  by (simp add: load_config_def split: outcome.splits)

lemma session_state_load_persona:
  "session_state (load_persona env e path) = session_state e"
  by (simp add: load_persona_def Let_def split: outcome.splits)

lemma session_state_initialize_body:
  "session_state (snd (initialize_body env e)) = session_state e"
proof -
  obtain r1 e1 where c: "(if config e = None then load_config env e else (Returned (), e)) = (r1, e1)"
    by (cases "if config e = None then load_config env e else (Returned (), e)")
  have "e1 = snd (if config e = None then load_config env e else (Returned (), e))"
    using c by simp
  then have s1: "session_state e1 = session_state e"
    by (simp add: session_state_load_config)
  show ?thesis
  proof (cases r1)
    case (Raised x)
    then show ?thesis using c s1 by (simp add: initialize_body_def)
  next
    case (Returned u)
    let ?e2 = "if persona e1 = None \<or> persona e1 = Some [] then load_persona env e1 None else e1"
    have s2: "session_state ?e2 = session_state e"
      using s1 by (simp add: session_state_load_persona)
    show ?thesis
    proof (cases "config ?e2")
      case None
      then show ?thesis using c Returned s2 by (simp add: initialize_body_def Let_def)
    next
      case (Some cfg)
      let ?e3 = "if truthy (dict_get (azure cfg) ''openai'' PNone)
                 then logs [ProxyCreated, LogInfo ''Realtime proxy initialized'']
                        (?e2\<lparr>realtime_proxy := Some new_realtime_proxy\<rparr>) else ?e2"
      let ?e4 = "if truthy (dict_get (azure cfg) ''speech'' PNone)
                 then logs [SpeechCreated, LogInfo ''Speech handler initialized'']
                        (?e3\<lparr>speech_handler := Some \<lparr>avatar_connected = False\<rparr>\<rparr>) else ?e3"
      have s4: "session_state ?e4 = session_state e" using s2 by simp
      obtain r5 e5 where l5: "load_plugins env ?e4 None = (r5, e5)"
        by (cases "load_plugins env ?e4 None")
      have fr: "session_state (snd (load_plugins env ?e4 None)) = session_state ?e4"
        by (rule load_plugins_frame) simp_all
      have s5: "session_state e5 = session_state e"
        using fr s4 unfolding l5 by simp
      have "initialize_body env e =
              (case r5 of Raised x \<Rightarrow> (Raised x, e5)
               | Returned v \<Rightarrow> (Returned (),
                   logs [LogInfo (''Avatar engine initialized for instance: '' @ instance_name e5)]
                     (e5\<lparr>initialized := True\<rparr>)))"
        unfolding initialize_body_def c Returned
        by (simp only: prod.case outcome.case Let_def Some option.case l5)
      then show ?thesis using s5 by (cases r5) simp_all
    qed
  qed
qed

lemma session_state_initialize:
  "session_state (snd (initialize env e)) = session_state e"
proof -
  obtain r e1 where b: "initialize_body env e = (r, e1)" by (cases "initialize_body env e")
  then have "e1 = snd (initialize_body env e)" by simp
  then have "session_state e1 = session_state e" by (simp add: session_state_initialize_body)
  then show ?thesis using b by (cases r) (simp_all add: initialize_def)
qed

section \<open>The registry\<close>

lemma demo_avatar_created: "create_avatar demo_env ''demo'' = Returned demo_avatar"
proof -
  have "case create_avatar demo_env ''demo'' of Returned a \<Rightarrow> True | Raised x \<Rightarrow> False"
    by code_simp
  then show ?thesis
    by (cases "create_avatar demo_env ''demo''") (simp_all add: demo_avatar_def)
qed

lemma demo_engine_initialized: "fst (initialize demo_env demo_avatar) = Returned ()"
proof -
  have "case fst (initialize demo_env demo_avatar) of Returned a \<Rightarrow> True | Raised x \<Rightarrow> False"
    by code_simp
  then show ?thesis
    by (cases "fst (initialize demo_env demo_avatar)") simp_all
qed

text \<open>The example registry is the one a first \<^verbatim>\<open>start_instance\<close> produces.\<close>

lemma demo_manager_started:
  "start_instance demo_env demo_clock new_instance_manager ''demo'' = (True, demo_manager)"
proof -
  have i: "initialize demo_env demo_avatar = (Returned (), demo_engine)"
    using demo_engine_initialized
    by (cases "initialize demo_env demo_avatar") (simp add: demo_engine_def)
  show ?thesis
    by (simp add: start_instance_def new_instance_manager_def dict_contains_def dict_keys_def
          demo_avatar_created i mlog_def demo_manager_def demo_clock_def)
qed

text \<open>
  C6. For a name that is already in the registry, \<^verbatim>\<open>start_instance\<close> answers \<^verbatim>\<open>True\<close>
  and only writes a warning to the log: the registry, with the engine registered under
  the name, and the metadata are unchanged, and no engine is created (the answer does not
  depend on the world).
\<close>

theorem start_instance_idempotent:
  "dict_contains name (instances m) \<longrightarrow>
     start_instance env clk m name
       = (True, mlog [LogWarning (''Instance '' @ name @ '' is already running'')] m)
     \<and> instances (snd (start_instance env clk m name)) = instances m
     \<and> instance_metadata (snd (start_instance env clk m name)) = instance_metadata m"
  by (simp add: start_instance_def mlog_def)

theorem start_instance_idempotent_witness:
  "dict_contains ''demo'' (instances demo_manager)
   \<and> fst (start_instance demo_env demo_clock demo_manager ''demo'')
   \<and> instances (snd (start_instance demo_env demo_clock demo_manager ''demo''))
       = [(''demo'', demo_engine)]"
proof -
  have h: "dict_contains ''demo'' (instances demo_manager)"
    by (simp add: demo_manager_def dict_contains_def dict_keys_def)
  from start_instance_idempotent [of "''demo''" demo_manager demo_env demo_clock] h
  have "start_instance demo_env demo_clock demo_manager ''demo''
          = (True, mlog [LogWarning (''Instance '' @ ''demo'' @ '' is already running'')]
                     demo_manager)
        \<and> instances (snd (start_instance demo_env demo_clock demo_manager ''demo''))
            = instances demo_manager"
    by blast
  then show ?thesis using h by (simp add: demo_manager_def mlog_def)
qed

text \<open>
  C9. On an engine without an active session \<^verbatim>\<open>process_message\<close> returns the error
  result \<open>No active session\<close>; it does not raise and leaves the engine, with its session
  state, as it was. The registry's \<^verbatim>\<open>process_message\<close> answers the same for a registered
  engine without an active session and leaves the registry as it was. A new engine has no
  active session, and \<^verbatim>\<open>initialize\<close> does not start one.
\<close>

theorem no_active_session:
  "(\<not> active (session_state e) \<longrightarrow>
      process_message clk e message = (Returned (ErrorResult ''No active session''), e))
   \<and> (get_instance m name = Some e \<and> \<not> active (session_state e) \<longrightarrow>
        manager_process_message clk m name message
          = (Returned (ErrorResult ''No active session''), m))
   \<and> \<not> active (session_state (new_engine name path))
   \<and> \<not> active (session_state (snd (initialize env (new_engine name path))))"
  by (simp add: process_message_def manager_process_message_def session_state_initialize
        new_engine_def)

theorem no_active_session_witness:
  "\<not> active (session_state demo_engine)
   \<and> process_message demo_clock demo_engine hello
       = (Returned (ErrorResult ''No active session''), demo_engine)
   \<and> get_instance demo_manager ''demo'' = Some demo_engine
   \<and> manager_process_message demo_clock demo_manager ''demo'' hello
       = (Returned (ErrorResult ''No active session''), demo_manager)"
proof -
  have a: "\<not> active (session_state demo_engine)" by code_simp
  have g: "get_instance demo_manager ''demo'' = Some demo_engine"
    by (simp add: get_instance_def demo_manager_def)
  from no_active_session [of demo_engine demo_clock hello demo_manager "''demo''"] a g
  show ?thesis by blast
qed

text \<open>
  C1 (the code departs from the claim). An instance with two plugins, the first of
  which raises in \<^verbatim>\<open>cleanup\<close>, and no session: \<^verbatim>\<open>stop_instance\<close> answers \<^verbatim>\<open>False\<close>, the
  instance is still registered, and the second plugin's \<^verbatim>\<open>cleanup\<close> was never called
  (the manager's log holds the first cleanup and the failure only).
\<close>

theorem stop_instance_cleanup_failure:
  "dict_keys (instances faulty_manager) = [''a'']
   \<and> fst (stop_instance demo_clock faulty_manager ''a'') = False
   \<and> dict_keys (instances (snd (stop_instance demo_clock faulty_manager ''a''))) = [''a'']
   \<and> manager_log (snd (stop_instance demo_clock faulty_manager ''a''))
       = [LogInfo ''Instance started: a'', PluginCleanup ''bad_plugin'',
          LogError ''Failed to stop instance a: cleanup failed'']"
  by code_simp

text \<open>
  C8 (the code departs from the claim). A message to a session whose only plugin
  produces no response: the merged response has empty content, and the history still
  gains two entries, the user's and an assistant entry with the empty content.
\<close>

theorem process_message_empty_assistant_entry:
  "messages (session_state quiet_session) = []
   \<and> fst (process_message demo_clock quiet_session hello)
       = Returned (ResponseResult \<lparr>content = [], metadata = []\<rparr>)
   \<and> map (\<lambda>entry. (role entry, entry_content entry))
        (messages (session_state (snd (process_message demo_clock quiet_session hello))))
       = [(''user'', PStr ''hello''), (''assistant'', PStr [])]"
  by code_simp

section \<open>Sessions\<close>





section \<open>Initialisation\<close>




section \<open>The capacity of the registry\<close>

lemma length_update:
  "length (AList.update k v al) = (if k \<in> fst ` set al then length al else Suc (length al))"
proof -
  have "length (AList.update k v al) = length (map fst (AList.update k v al))" by simp
  also have "\<dots> = (if k \<in> fst ` set al then length al else Suc (length al))"
    by (simp only: update_keys) simp
  finally show ?thesis .
qed

lemma map_of_Some_in_keys: "map_of al k = Some v \<Longrightarrow> k \<in> fst ` set al"
  by (metis domI dom_map_of_conv_image_fst)

lemma start_instance_capacity:
  assumes "int (length (instances m)) \<le> max_instances m"
  shows "int (length (instances (snd (start_instance env clk m name)))) \<le> max_instances m
       \<and> max_instances (snd (start_instance env clk m name)) = max_instances m"
proof (cases "dict_contains name (instances m)")
  case True
  then show ?thesis using assms by (simp add: start_instance_def mlog_def)
next
  case False
  show ?thesis
  proof (cases "int (length (instances m)) \<ge> max_instances m")
    case True
    then show ?thesis using assms False by (simp add: start_instance_def mlog_def)
  next
    case room: False
    have nk: "name \<notin> fst ` set (instances m)"
      using False by (simp add: dict_contains_def dict_keys_def)
    show ?thesis
    proof (cases "create_avatar env name")
      case (Raised x)
      then show ?thesis using assms False room by (simp add: start_instance_def mlog_def)
    next
      case (Returned avatar)
      obtain r a1 where i: "initialize env avatar = (r, a1)" by (cases "initialize env avatar")
      show ?thesis
        using assms False room Returned i nk
        by (cases r) (simp_all add: start_instance_def mlog_def length_update)
    qed
  qed
qed

lemma stop_instance_capacity:
  "length (instances (snd (stop_instance clk m name))) \<le> length (instances m)
   \<and> max_instances (snd (stop_instance clk m name)) = max_instances m"
proof (cases "map_of (instances m) name")
  case None
  then show ?thesis by (simp add: stop_instance_def mlog_def)
next
  case (Some avatar)
  then have k: "name \<in> fst ` set (instances m)" by (rule map_of_Some_in_keys)
  obtain r a1 where s: "(if active (session_state avatar) then stop_session clk avatar
                 else (Returned (ErrorResult []), avatar)) = (r, a1)"
    by (cases "if active (session_state avatar) then stop_session clk avatar
                 else (Returned (ErrorResult []), avatar)")
  show ?thesis
  proof (cases r)
    case (Raised x)
    then show ?thesis
      unfolding stop_instance_def Some option.case s
      using k by (simp add: mlog_def length_update)
  next
    case (Returned res)
    obtain c evs where cl: "cleanup_plugins (plugins a1) = (c, evs)"
      by (cases "cleanup_plugins (plugins a1)")
    show ?thesis
      unfolding stop_instance_def Some option.case s Returned
      using k cl by (cases c) (simp_all add: mlog_def length_update length_delete_le)
  qed
qed

lemma registry_step_capacity:
  assumes "int (length (instances m)) \<le> max_instances m"
  shows "int (length (instances (registry_step m c))) \<le> max_instances m
       \<and> max_instances (registry_step m c) = max_instances m"
proof -
  obtain env clk call where c: "c = (env, clk, call)" by (cases c)
  show ?thesis
  proof (cases call)
    case (StartInstance name)
    then show ?thesis using c start_instance_capacity [OF assms] by simp
  next
    case (StopInstance name)
    then show ?thesis
      using c assms stop_instance_capacity [of clk m name] by simp
  next
    case (RestartInstance name)
    let ?m1 = "if dict_contains name (instances m) then snd (stop_instance clk m name) else m"
    have "int (length (instances ?m1)) \<le> max_instances ?m1 \<and> max_instances ?m1 = max_instances m"
      using assms stop_instance_capacity [of clk m name] by simp
    then show ?thesis
      using c RestartInstance start_instance_capacity [of ?m1 env clk name]
      by (simp add: restart_instance_def Let_def)
  qed
qed

lemma registry_run_capacity:
  "int (length (instances m)) \<le> max_instances m \<Longrightarrow>
   int (length (instances (registry_run m calls))) \<le> max_instances m
   \<and> max_instances (registry_run m calls) = max_instances m"
  unfolding registry_run_def
proof (induction calls arbitrary: m)
  case Nil
  then show ?case by simp
next
  case (Cons c calls)
  from registry_step_capacity [OF Cons.prems, of c]
  have 1: "int (length (instances (registry_step m c))) \<le> max_instances (registry_step m c)"
    and 2: "max_instances (registry_step m c) = max_instances m" by simp_all
  from Cons.IH [OF 1] 2 show ?case by simp
qed

lemma start_instance_distinct:
  assumes "distinct (dict_keys (instances m))"
  shows "distinct (dict_keys (instances (snd (start_instance env clk m name))))"
proof (cases "create_avatar env name")
  case (Raised x)
  then show ?thesis using assms by (simp add: start_instance_def mlog_def)
next
  case (Returned avatar)
  obtain r a1 where i: "initialize env avatar = (r, a1)" by (cases "initialize env avatar")
  have "distinct (map fst (AList.update name a1 (instances m)))"
    using assms by (simp add: distinct_update dict_keys_def)
  then show ?thesis
    using assms Returned i
    by (cases r) (simp_all add: start_instance_def mlog_def dict_keys_def)
qed

lemma stop_instance_distinct:
  assumes "distinct (dict_keys (instances m))"
  shows "distinct (dict_keys (instances (snd (stop_instance clk m name))))"
proof (cases "map_of (instances m) name")
  case None
  then show ?thesis using assms by (simp add: stop_instance_def mlog_def)
next
  case (Some avatar)
  obtain r a1 where s: "(if active (session_state avatar) then stop_session clk avatar
                 else (Returned (ErrorResult []), avatar)) = (r, a1)"
    by (cases "if active (session_state avatar) then stop_session clk avatar
                 else (Returned (ErrorResult []), avatar)")
  have u: "distinct (map fst (AList.update name a1 (instances m)))"
    using assms by (simp add: distinct_update dict_keys_def)
  have d: "distinct (map fst (AList.delete name (instances m)))"
    using assms by (simp add: distinct_delete dict_keys_def)
  show ?thesis
  proof (cases r)
    case (Raised x)
    then show ?thesis
      unfolding stop_instance_def Some option.case s
      using u by (simp add: mlog_def dict_keys_def)
  next
    case (Returned res)
    obtain c evs where cl: "cleanup_plugins (plugins a1) = (c, evs)"
      by (cases "cleanup_plugins (plugins a1)")
    show ?thesis
      unfolding stop_instance_def Some option.case s Returned
      using u d cl by (cases c) (simp_all add: mlog_def dict_keys_def)
  qed
qed

lemma registry_step_distinct:
  assumes "distinct (dict_keys (instances m))"
  shows "distinct (dict_keys (instances (registry_step m c)))"
proof -
  obtain env clk call where c: "c = (env, clk, call)" by (cases c)
  show ?thesis
  proof (cases call)
    case (StartInstance name)
    then show ?thesis using c start_instance_distinct [OF assms] by simp
  next
    case (StopInstance name)
    then show ?thesis using c stop_instance_distinct [OF assms] by simp
  next
    case (RestartInstance name)
    let ?m1 = "if dict_contains name (instances m) then snd (stop_instance clk m name) else m"
    have "distinct (dict_keys (instances ?m1))"
      using assms stop_instance_distinct [OF assms] by simp
    then show ?thesis
      using c RestartInstance start_instance_distinct [of ?m1 env clk name]
      by (simp add: restart_instance_def Let_def)
  qed
qed

lemma registry_run_distinct:
  "distinct (dict_keys (instances m)) \<Longrightarrow>
   distinct (dict_keys (instances (registry_run m calls)))"
  unfolding registry_run_def
  by (induction calls arbitrary: m) (simp_all add: registry_step_distinct)

text \<open>
  C2. Along every run of \<^verbatim>\<open>start_instance\<close>, \<^verbatim>\<open>stop_instance\<close> and
  \<^verbatim>\<open>restart_instance\<close> calls, from a registry within its bound, the number of running
  instances stays within the bound, which the calls do not change; the names in the
  registry stay distinct, so the length of the registry is that number. From the registry
  as constructed the number never exceeds ten. A \<^verbatim>\<open>start_instance\<close> for a new name on a
  registry at its bound answers \<^verbatim>\<open>False\<close>, having logged that the limit is reached, and
  leaves the registered engines and the metadata as they are.
\<close>

theorem capacity_bound:
  "(int (length (instances m)) \<le> max_instances m \<longrightarrow>
      int (length (instances (registry_run m calls))) \<le> max_instances m
      \<and> max_instances (registry_run m calls) = max_instances m)
   \<and> (distinct (dict_keys (instances m)) \<longrightarrow>
        distinct (dict_keys (instances (registry_run m calls))))
   \<and> int (length (instances (registry_run new_instance_manager calls))) \<le> 10
   \<and> (\<not> dict_contains name (instances m) \<and> max_instances m \<le> int (length (instances m)) \<longrightarrow>
        start_instance env clk m name
          = (False, mlog [LogError ''Maximum instance limit reached''] m)
        \<and> instances (snd (start_instance env clk m name)) = instances m
        \<and> instance_metadata (snd (start_instance env clk m name)) = instance_metadata m)"
proof (intro conjI impI)
  assume "int (length (instances m)) \<le> max_instances m"
  from registry_run_capacity [OF this, of calls]
  show "int (length (instances (registry_run m calls))) \<le> max_instances m"
    and "max_instances (registry_run m calls) = max_instances m" by simp_all
next
  assume "distinct (dict_keys (instances m))"
  then show "distinct (dict_keys (instances (registry_run m calls)))"
    by (rule registry_run_distinct)
next
  have "int (length (instances new_instance_manager)) \<le> max_instances new_instance_manager"
    by (simp add: new_instance_manager_def)
  from registry_run_capacity [OF this, of calls]
  show "int (length (instances (registry_run new_instance_manager calls))) \<le> 10"
    by (simp add: new_instance_manager_def)
next
  assume h: "\<not> dict_contains name (instances m) \<and> max_instances m \<le> int (length (instances m))"
  then show "start_instance env clk m name
          = (False, mlog [LogError ''Maximum instance limit reached''] m)"
    by (simp add: start_instance_def)
  then show "instances (snd (start_instance env clk m name)) = instances m"
    and "instance_metadata (snd (start_instance env clk m name)) = instance_metadata m"
    by (simp_all add: mlog_def)
qed

text \<open>
  The scenario: with a bound of two, \<open>a\<close> and \<open>b\<close> start, \<open>c\<close> is refused and \<open>a\<close> and
  \<open>b\<close> keep running; after \<open>a\<close> is stopped, \<open>c\<close> starts.
\<close>

theorem capacity_bound_witness:
  "int (length (instances small_manager)) \<le> max_instances small_manager
   \<and> dict_keys (instances two_running) = [''a'', ''b'']
   \<and> int (length (instances (registry_run small_manager
            [(demo_env, demo_clock, StartInstance ''a''),
             (demo_env, demo_clock, StartInstance ''b''),
             (demo_env, demo_clock, StartInstance ''c'')]))) \<le> 2
   \<and> fst (start_instance demo_env demo_clock two_running ''c'') = False
   \<and> instances (snd (start_instance demo_env demo_clock two_running ''c''))
       = instances two_running
   \<and> dict_keys (instances (registry_run two_running
            [(demo_env, demo_clock, StartInstance ''c''),
             (demo_env, demo_clock, StopInstance ''a''),
             (demo_env, demo_clock, StartInstance ''c'')])) = [''b'', ''c'']"
proof -
  have b: "int (length (instances small_manager)) \<le> max_instances small_manager"
    by (simp add: small_manager_def new_instance_manager_def)
  have mx: "max_instances small_manager = 2"
    by (simp add: small_manager_def)
  have k: "dict_keys (instances two_running) = [''a'', ''b'']" by code_simp
  have full: "\<not> dict_contains ''c'' (instances two_running)
              \<and> max_instances two_running \<le> int (length (instances two_running))"
    by code_simp
  have after: "dict_keys (instances (registry_run two_running
            [(demo_env, demo_clock, StartInstance ''c''),
             (demo_env, demo_clock, StopInstance ''a''),
             (demo_env, demo_clock, StartInstance ''c'')])) = [''b'', ''c'']"
    by code_simp
  from capacity_bound [of small_manager
         "[(demo_env, demo_clock, StartInstance ''a''),
           (demo_env, demo_clock, StartInstance ''b''),
           (demo_env, demo_clock, StartInstance ''c'')]" "''c''" demo_env demo_clock] b
  have run: "int (length (instances (registry_run small_manager
            [(demo_env, demo_clock, StartInstance ''a''),
             (demo_env, demo_clock, StartInstance ''b''),
             (demo_env, demo_clock, StartInstance ''c'')]))) \<le> max_instances small_manager"
    by blast
  from capacity_bound [of two_running "[]" "''c''" demo_env demo_clock] full
  have refuse: "start_instance demo_env demo_clock two_running ''c''
          = (False, mlog [LogError ''Maximum instance limit reached''] two_running)
        \<and> instances (snd (start_instance demo_env demo_clock two_running ''c''))
            = instances two_running"
    by blast
  show ?thesis
    using b k after run refuse unfolding mx by (simp add: mlog_def)
qed


section \<open>Failure isolation in the pipeline\<close>







lemma plugins_append_message [simp]: "plugins (append_message x e) = plugins e"
  by (simp add: append_message_def)

lemma metrics_append_message [simp]:
  "metrics (session_state (append_message x e)) = metrics (session_state e)"
  by (simp add: append_message_def)


lemma metrics_record_response [simp]:
  "metrics (session_state (record_response clk r e)) = metrics (session_state e)"
  by (simp add: record_response_def Let_def)







end
